theory Spec2Isabelle
  imports Main "HOL-Library.Sublist" "HOL-Library.Char_ord" "HOL-Library.List_Lexorder"
begin

section \<open>Python strings\<close>

text \<open>
  Strings are lists of 8-bit characters.  The operations below are the ASCII
  fragments of the Python \<^verbatim>\<open>str\<close> methods used by the three scripts
  (\<^verbatim>\<open>lower\<close>, \<^verbatim>\<open>strip\<close>, \<^verbatim>\<open>splitlines\<close>, \<^verbatim>\<open>in\<close>); characters
  outside ASCII are left alone by \<open>str_lower\<close> and are neither white space nor
  line boundaries.
\<close>

definition lower_char :: "char \<Rightarrow> char" where
  "lower_char c =
     (case map_of (zip ''ABCDEFGHIJKLMNOPQRSTUVWXYZ'' ''abcdefghijklmnopqrstuvwxyz'') c of
        Some d \<Rightarrow> d
      | None \<Rightarrow> c)"

definition str_lower :: "string \<Rightarrow> string" where
  "str_lower s = map lower_char s"

text \<open>\<^verbatim>\<open>needle in haystack\<close> on strings: \<open>str_in needle haystack\<close>.\<close>

fun str_in :: "string \<Rightarrow> string \<Rightarrow> bool" where
  "str_in n [] = (n = [])"
| "str_in n (c # cs) = (prefix n (c # cs) \<or> str_in n cs)"

text \<open>White space of \<^verbatim>\<open>str.strip()\<close> and line boundaries of \<^verbatim>\<open>str.splitlines()\<close>.\<close>

definition is_space :: "char \<Rightarrow> bool" where
  "is_space c = (c \<in> set [CHR 0x09, CHR 0x0A, CHR 0x0B, CHR 0x0C, CHR 0x0D,
                            CHR 0x1C, CHR 0x1D, CHR 0x1E, CHR 0x1F, CHR 0x20])"

definition strip :: "string \<Rightarrow> string" where
  "strip s = rev (dropWhile is_space (rev (dropWhile is_space s)))"

definition is_linebreak :: "char \<Rightarrow> bool" where
  "is_linebreak c = (c \<in> set [CHR 0x0A, CHR 0x0B, CHR 0x0C, CHR 0x0D,
                                CHR 0x1C, CHR 0x1D, CHR 0x1E])"

fun splitlines_from :: "string \<Rightarrow> string \<Rightarrow> string list" where
  "splitlines_from cur [] = (if cur = [] then [] else [cur])"
| "splitlines_from cur [c] = (if is_linebreak c then [cur] else [cur @ [c]])"
| "splitlines_from cur (c # d # cs) =
     (if c = CHR 0x0D \<and> d = CHR 0x0A then cur # splitlines_from [] cs
      else if is_linebreak c then cur # splitlines_from [] (d # cs)
      else splitlines_from (cur @ [c]) (d # cs))"

definition splitlines :: "string \<Rightarrow> string list" where
  "splitlines s = splitlines_from [] s"

section \<open>The environment: processes, console, exceptions\<close>

text \<open>Exceptions carry the text that \<^verbatim>\<open>str(e)\<close> gives.\<close>

datatype exc =
    FileNotFoundError string
  | EOFError string
  | TypeError string
  | AttributeError string
  | OSError string

fun exc_str :: "exc \<Rightarrow> string" where
  "exc_str (FileNotFoundError m) = m"
| "exc_str (EOFError m) = m"
| "exc_str (TypeError m) = m"
| "exc_str (AttributeError m) = m"
| "exc_str (OSError m) = m"

text \<open>
  Everything a script does to the outside is appended to a trace.  A \<open>Git\<close>
  event carries the working directory, the argument list and what
  \<^verbatim>\<open>git_operation\<close> returned for it; an \<open>Input\<close> event carries the prompt
  and the line that was read (\<open>None\<close> at end of input).
\<close>

datatype event =
    Print string
  | Input string "string option"
  | Chdir string
  | Git string "string list" "bool \<times> string"
  | Touch int
  | Unlink string
  | Backup string
  | WriteSettings string
  | RmTree string

text \<open>
  The environment answers the calls the scripts make.  \<open>git_proc\<close> is the
  outcome of \<^verbatim>\<open>subprocess.run(["git"] + args, cwd=...)\<close> after the events so
  far: whether the exit status was zero, standard output, standard error.
  \<open>git_present\<close> says whether the executable exists at all; it does not change
  during a run.  \<open>stdin_line\<close> is the operator's reply to \<^verbatim>\<open>input()\<close>, \<open>None\<close>
  at end of input.
\<close>

record env =
  home :: string
  git_present :: bool
  git_proc :: "event list \<Rightarrow> string \<Rightarrow> string list \<Rightarrow> bool \<times> string \<times> string"
  stdin_line :: "event list \<Rightarrow> string option"

record world =
  trace :: "event list"

text \<open>
  A procedure takes the world and returns it changed, with a value or the
  exception it raised.  Each script extends \<open>world\<close> with the files it owns.
\<close>

type_synonym ('s, 'a) io = "'s world_scheme \<Rightarrow> (exc + 'a) \<times> 's world_scheme"

definition return :: "'a \<Rightarrow> ('s, 'a) io" where
  "return a w = (Inr a, w)"

definition raise :: "exc \<Rightarrow> ('s, 'a) io" where
  "raise e w = (Inl e, w)"

definition bind :: "('s, 'a) io \<Rightarrow> ('a \<Rightarrow> ('s, 'b) io) \<Rightarrow> ('s, 'b) io" where
  "bind m f w = (case m w of (Inl e, w') \<Rightarrow> (Inl e, w') | (Inr a, w') \<Rightarrow> f a w')"

definition emit :: "event \<Rightarrow> ('s, unit) io" where
  "emit ev w = (Inr (), w\<lparr>trace := trace w @ [ev]\<rparr>)"

definition print :: "string \<Rightarrow> ('s, unit) io" where
  "print s = emit (Print s)"

definition input :: "'e env_scheme \<Rightarrow> string \<Rightarrow> ('s, string) io" where
  "input E prompt w =
     (case stdin_line E (trace w) of
        None \<Rightarrow> (Inl (EOFError ''EOF when reading a line''), w\<lparr>trace := trace w @ [Input prompt None]\<rparr>)
      | Some reply \<Rightarrow> (Inr reply, w\<lparr>trace := trace w @ [Input prompt (Some reply)]\<rparr>))"

definition new_events :: "'s world_scheme \<Rightarrow> 's world_scheme \<Rightarrow> event list" where
  "new_events w w' = drop (length (trace w)) (trace w')"

fun git_args :: "event \<Rightarrow> string list option" where
  "git_args (Git d a r) = Some a"
| "git_args _ = None"

definition git_commands :: "event list \<Rightarrow> string list list" where
  "git_commands evs = List.map_filter git_args evs"

fun is_input :: "event \<Rightarrow> bool" where
  "is_input (Input p r) = True"
| "is_input _ = False"

section \<open>install.py: the update reconciler\<close>

definition INSTALL_BRANCH :: string where
  "INSTALL_BRANCH = ''main''"

definition INSTALL_DIR :: "'e env_scheme \<Rightarrow> string" where
  "INSTALL_DIR E = home E @ ''/.claude-code-docs''"

text \<open>
  \<^verbatim>\<open>git_operation\<close> of install.py catches \<^verbatim>\<open>CalledProcessError\<close> only: a
  missing executable raises \<^verbatim>\<open>FileNotFoundError\<close> to the caller.
\<close>

definition git_missing :: exc where
  "git_missing =
     FileNotFoundError (''[Errno 2] No such file or directory: '' @ [CHR 0x27] @ ''git'' @ [CHR 0x27])"

definition git_result_install :: "'e env_scheme \<Rightarrow> event list \<Rightarrow> string \<Rightarrow> string list \<Rightarrow> bool \<times> string" where
  "git_result_install E t cwd args =
     (case git_proc E t cwd args of
        (ok, out, err) \<Rightarrow> if ok then (True, strip out) else (False, strip err))"

definition git_operation_install ::
  "'e env_scheme \<Rightarrow> string \<Rightarrow> string list \<Rightarrow> ('s, bool \<times> string) io" where
  "git_operation_install E cwd args w =
     (if \<not> git_present E
      then (Inl git_missing, w)
      else let r = git_result_install E (trace w) cwd args
           in (Inr r, w\<lparr>trace := trace w @ [Git cwd args r]\<rparr>))"

definition non_manifest_changes :: "string \<Rightarrow> string list" where
  "non_manifest_changes status =
     filter (\<lambda>line. \<not> str_in ''docs_manifest.json'' line
                   \<and> \<not> str_in (''docs'' @ [CHR 0x5C] @ ''docs_manifest.json'') line)
            (splitlines status)"

definition reset_to_clean :: "'e env_scheme \<Rightarrow> ('s, bool) io" where
  "reset_to_clean E =
     bind (print ''  Updating to clean state...'') (\<lambda>_.
     bind (git_operation_install E (INSTALL_DIR E) [''merge'', ''--abort'']) (\<lambda>_.
     bind (git_operation_install E (INSTALL_DIR E) [''rebase'', ''--abort'']) (\<lambda>_.
     bind (git_operation_install E (INSTALL_DIR E)
             [''reset'', ''--hard'', ''origin/'' @ INSTALL_BRANCH]) (\<lambda>_.
     bind (git_operation_install E (INSTALL_DIR E) [''clean'', ''-fd'']) (\<lambda>_.
     bind (print ''  [OK] Updated successfully to clean state'') (\<lambda>_.
     return True))))))"

definition confirm_discard :: "'e env_scheme \<Rightarrow> ('s, bool) io" where
  "confirm_discard E =
     bind (print []) (\<lambda>_.
     bind (print ''[WARNING]  WARNING: Local changes detected in your installation:'') (\<lambda>_.
     bind (print []) (\<lambda>_.
     bind (print ''The installer will reset to a clean state, discarding these changes.'') (\<lambda>_.
     bind (print []) (\<lambda>_.
     bind (input E ''Continue and discard local changes? [y/N]: '') (\<lambda>response.
     if str_lower response \<noteq> ''y''
     then bind (print ''Installation cancelled. Your local changes are preserved.'')
            (\<lambda>_. return False)
     else return True))))))"

definition safe_git_update :: "'e env_scheme \<Rightarrow> ('s, bool) io" where
  "safe_git_update E =
     bind (emit (Chdir (INSTALL_DIR E))) (\<lambda>_.
     bind (git_operation_install E (INSTALL_DIR E) [''rev-parse'', ''--abbrev-ref'', ''HEAD''])
       (\<lambda>(success, branch).
     let current_branch = (if \<not> success then ''unknown'' else branch);
         target_branch = INSTALL_BRANCH
     in
     bind (if current_branch \<noteq> target_branch
           then print (''  Switching from '' @ current_branch @ '' to '' @ target_branch
                       @ '' branch...'')
           else print (''  Updating '' @ target_branch @ '' branch...'')) (\<lambda>_.
     bind (print ''Updating to latest version...'') (\<lambda>_.
     bind (git_operation_install E (INSTALL_DIR E) [''pull'', ''--quiet'', ''origin'', target_branch])
       (\<lambda>(success, output).
     if success then return True
     else
     bind (print ''  Standard update failed, trying harder...'') (\<lambda>_.
     bind (git_operation_install E (INSTALL_DIR E) [''fetch'', ''origin'', target_branch])
       (\<lambda>(success, output).
     if \<not> success
     then bind (print ''  [WARNING]  Could not fetch from GitHub (offline?)'') (\<lambda>_. return False)
     else
     bind (git_operation_install E (INSTALL_DIR E) [''status'', ''--porcelain''])
       (\<lambda>(success, status).
     let has_changes = (if success then status \<noteq> [] else False)
     in
     if has_changes \<and> non_manifest_changes status \<noteq> []
     then bind (confirm_discard E) (\<lambda>go. if go then reset_to_clean E else return False)
     else reset_to_clean E))))))))"

fun git_outcome :: "string list \<Rightarrow> event list \<Rightarrow> (bool \<times> string) option" where
  "git_outcome a [] = None"
| "git_outcome a (Git d b r # evs) = (if a = b then Some r else git_outcome a evs)"
| "git_outcome a (_ # evs) = git_outcome a evs"

definition confirm_banner :: "event list" where
  "confirm_banner =
     [Print [], Print ''[WARNING]  WARNING: Local changes detected in your installation:'',
      Print [], Print ''The installer will reset to a clean state, discarding these changes.'',
      Print []]"

definition update_prefix :: "'e env_scheme \<Rightarrow> 's world_scheme \<Rightarrow> event list" where
  "update_prefix E w =
    (let d = INSTALL_DIR E;
         t1 = trace w @ [Chdir d];
         r1 = git_result_install E t1 d [''rev-parse'', ''--abbrev-ref'', ''HEAD''];
         b = (if \<not> fst r1 then ''unknown'' else snd r1);
         m = (if b \<noteq> ''main'' then ''  Switching from '' @ b @ '' to main branch...''
              else ''  Updating main branch...'')
     in [Chdir d, Git d [''rev-parse'', ''--abbrev-ref'', ''HEAD''] r1, Print m,
         Print ''Updating to latest version...''])"

definition example_env :: "string \<Rightarrow> string option \<Rightarrow> env" where
  "example_env status reply =
     \<lparr>home = ''/home/u'',
      git_present = True,
      git_proc = (\<lambda>t cwd args.
         if args = [''rev-parse'', ''--abbrev-ref'', ''HEAD''] then (True, ''main'' @ [CHR 0x0A], [])
         else if args = [''pull'', ''--quiet'', ''origin'', ''main'']
         then (False, [], ''error: cannot pull with local changes\<newline>'')
         else if args = [''status'', ''--porcelain''] then (True, status, [])
         else (True, [], [])),
      stdin_line = (\<lambda>t. reply)\<rparr>"

definition example_update_prefix :: "string \<Rightarrow> event list" where
  "example_update_prefix status =
     [Chdir ''/home/u/.claude-code-docs'',
      Git ''/home/u/.claude-code-docs'' [''rev-parse'', ''--abbrev-ref'', ''HEAD''] (True, ''main''),
      Print ''  Updating main branch...'',
      Print ''Updating to latest version...'',
      Git ''/home/u/.claude-code-docs'' [''pull'', ''--quiet'', ''origin'', ''main'']
        (False, ''error: cannot pull with local changes''),
      Print ''  Standard update failed, trying harder...'',
      Git ''/home/u/.claude-code-docs'' [''fetch'', ''origin'', ''main''] (True, []),
      Git ''/home/u/.claude-code-docs'' [''status'', ''--porcelain''] (True, status)]"

definition example_reset_events :: "event list" where
  "example_reset_events =
     [Print ''  Updating to clean state...'',
      Git ''/home/u/.claude-code-docs'' [''merge'', ''--abort''] (True, []),
      Git ''/home/u/.claude-code-docs'' [''rebase'', ''--abort''] (True, []),
      Git ''/home/u/.claude-code-docs'' [''reset'', ''--hard'', ''origin/main''] (True, []),
      Git ''/home/u/.claude-code-docs'' [''clean'', ''-fd''] (True, []),
      Print ''  [OK] Updated successfully to clean state'']"

section \<open>claude-docs-helper.py\<close>

subsection \<open>Numbers in text\<close>

definition isdigit :: "string \<Rightarrow> bool" where
  "isdigit s = (s \<noteq> [] \<and> list_all (\<lambda>c. c \<in> set ''0123456789'') s)"

definition digit_val :: "char \<Rightarrow> nat" where
  "digit_val c = (case map_of (zip ''0123456789'' [0, 1, 2, 3, 4, 5, 6, 7, 8, 9]) c of
                    Some n \<Rightarrow> n
                  | None \<Rightarrow> 0)"

definition int_of_str :: "string \<Rightarrow> nat" where
  "int_of_str s = foldl (\<lambda>a c. 10 * a + digit_val c) 0 s"

fun str_of_nat :: "nat \<Rightarrow> string" where
  "str_of_nat n =
     (if n < 10 then [''0123456789'' ! n]
      else str_of_nat (n div 10) @ [''0123456789'' ! (n mod 10)])"

fun join :: "string \<Rightarrow> string list \<Rightarrow> string" where
  "join sep [] = []"
| "join sep [x] = x"
| "join sep (x # y # ys) = x @ sep @ join sep (y # ys)"

subsection \<open>Files of the mirror\<close>

text \<open>
  The last-check marker is absent, or present with a modification time, or
  present while \<^verbatim>\<open>stat()\<close> raises.  Times are microseconds since the epoch,
  the resolution of \<^verbatim>\<open>datetime\<close>.

  A file of the docs directory has its stored text; one that cannot be read
  has, besides, the text of the exception that \<^verbatim>\<open>read_text\<close> raises.
\<close>

datatype marker = NoFile | Mtime int | StatFails

datatype doc = Text string | Unreadable string string


text \<open>
  \<open>docs_listing\<close> is the docs directory in listing order, name and file
  (\<open>None\<close> when the directory does not exist); \<open>nested_path\<close> is what a path
  with a separator below the docs directory leads to; \<open>time_ago\<close> stands for
  \<^verbatim>\<open>format_time_ago\<close> at the time of the call (its float arithmetic is not
  modelled); \<open>touch_error\<close> is the exception text of a failing \<^verbatim>\<open>touch()\<close>.
\<close>

record helper_env = env +
  script_dir :: string
  now :: int
  touch_error :: "string option"
  docs_listing :: "(string \<times> doc) list option"
  nested_path :: "string \<Rightarrow> doc option"
  time_ago :: "int \<Rightarrow> string"

record helper_world = world +
  last_check :: marker

definition CHECK_INTERVAL :: int where
  "CHECK_INTERVAL = 3 * 3600 * 1000000"

definition GITHUB_REPO :: string where
  "GITHUB_REPO = ''https://github.com/ericbuess/claude-code-docs''"

definition OFFICIAL_DOCS :: string where
  "OFFICIAL_DOCS = ''https://docs.anthropic.com/en/docs/claude-code''"

subsection \<open>Version control\<close>

text \<open>
  \<^verbatim>\<open>git_operation\<close> of the helper never raises: a failing command gives its
  standard error, a missing executable gives \<^verbatim>\<open>Git not found\<close>.
\<close>

definition git_result_helper ::
  "'e helper_env_scheme \<Rightarrow> event list \<Rightarrow> string list \<Rightarrow> bool \<times> string" where
  "git_result_helper E t args =
     (if \<not> git_present E then (False, ''Git not found'')
      else case git_proc E t (script_dir E) args of
        (ok, out, err) \<Rightarrow> if ok then (True, strip out) else (False, strip err))"

definition git_operation_helper ::
  "'e helper_env_scheme \<Rightarrow> string list \<Rightarrow> ('s, bool \<times> string) io" where
  "git_operation_helper E args w =
     (let r = git_result_helper E (trace w) args
      in (Inr r, w\<lparr>trace := trace w @ [Git (script_dir E) args r]\<rparr>))"

definition check_for_updates :: "'e helper_env_scheme \<Rightarrow> ('s, bool \<times> string) io" where
  "check_for_updates E =
     bind (git_operation_helper E [''fetch'', ''--quiet'']) (\<lambda>(success, output).
     if \<not> success then return (False, ''Could not check for updates'')
     else
     bind (git_operation_helper E [''rev-list'', ''--count'', ''HEAD..origin/main''])
       (\<lambda>(success, behind).
     if \<not> success then return (False, ''Could not compare with remote'')
     else
     let behind_count = (if isdigit behind then int_of_str behind else 0)
     in if behind_count > 0
        then return (True, str_of_nat behind_count @ '' update(s) available'')
        else return (False, ''Already up to date'')))"

definition pull_updates :: "'e helper_env_scheme \<Rightarrow> ('s, bool) io" where
  "pull_updates E =
     bind (print ''[UPDATE] Updating documentation...'') (\<lambda>_.
     bind (git_operation_helper E [''pull'', ''--quiet'']) (\<lambda>(success, output).
     if success
     then bind (print ''[OK] Documentation updated successfully'') (\<lambda>_. return True)
     else bind (print (''[WARNING]  Update failed: '' @ output)) (\<lambda>_. return False)))"

definition get_last_update_time :: "'e helper_env_scheme \<Rightarrow> ('s, int option) io" where
  "get_last_update_time E =
     bind (git_operation_helper E [''log'', ''-1'', ''--format=%ct'', ''docs/''])
       (\<lambda>(success, output).
     if success \<and> isdigit output then return (Some (int (int_of_str output)))
     else return None)"

definition check_freshness :: "'e helper_env_scheme \<Rightarrow> ('s, unit) io" where
  "check_freshness E =
     bind (get_last_update_time E) (\<lambda>last_update.
     bind (case last_update of
             Some t \<Rightarrow> print (''[INFO] Docs last updated: '' @ time_ago E t)
           | None \<Rightarrow> print ''[INFO] Could not determine last update time'') (\<lambda>_.
     bind (check_for_updates E) (\<lambda>(has_updates, message).
     bind (if has_updates
           then bind (print (''[UPDATE] '' @ message)) (\<lambda>_.
                bind (pull_updates E) (\<lambda>_. return ()))
           else print (''[OK] '' @ message)) (\<lambda>_.
     print []))))"

subsection \<open>The passive hook\<close>

definition touch :: "'e helper_env_scheme \<Rightarrow> ('s helper_world_scheme \<Rightarrow> (exc + unit) \<times> 's helper_world_scheme)" where
  "touch E w =
     (case touch_error E of
        Some m \<Rightarrow> (Inl (OSError m), w)
      | None \<Rightarrow> (Inr (), w\<lparr>trace := trace w @ [Touch (now E)], last_check := Mtime (now E)\<rparr>))"

definition hook_check :: "'e helper_env_scheme \<Rightarrow> ('s helper_world_scheme \<Rightarrow> (exc + unit) \<times> 's helper_world_scheme)" where
  "hook_check E w =
     (let should_check =
            (case last_check w of
               NoFile \<Rightarrow> True
             | StatFails \<Rightarrow> True
             | Mtime m \<Rightarrow> if now E - m < CHECK_INTERVAL then False else True)
      in if should_check
         then bind (touch E) (\<lambda>_.
              bind (check_for_updates E) (\<lambda>(has_updates, _).
              if has_updates then bind (pull_updates E) (\<lambda>_. return ())
              else return ())) w
         else return () w)"

subsection \<open>Document lookup\<close>

definition glob_md :: "'e helper_env_scheme \<Rightarrow> string list" where
  "glob_md E =
     (case docs_listing E of
        None \<Rightarrow> []
      | Some l \<Rightarrow> filter (\<lambda>name. suffix ''.md'' name) (map fst l))"

text \<open>
  \<^verbatim>\<open>Path.stem\<close>: the name without its last suffix, where a dot at the start
  or at the end of the name begins no suffix.
\<close>

definition stem :: "string \<Rightarrow> string" where
  "stem name =
     (if CHR ''.'' \<in> set name
      then let i = length name - 1 - length (takeWhile (\<lambda>c. c \<noteq> CHR ''.'') (rev name))
           in if 0 < i \<and> i < length name - 1 then take i name else name
      else name)"

text \<open>
  What the path \<^verbatim>\<open>DOCS_DIR / p\<close> leads to: an entry of the directory, or,
  for a path with a separator, whatever lies there.
\<close>

definition lookup_doc :: "'e helper_env_scheme \<Rightarrow> string \<Rightarrow> doc option" where
  "lookup_doc E p =
     (case (case docs_listing E of None \<Rightarrow> None | Some l \<Rightarrow> map_of l p) of
        Some d \<Rightarrow> Some d
      | None \<Rightarrow> if CHR ''/'' \<in> set p then nested_path E p else None)"

definition doc_exists :: "'e helper_env_scheme \<Rightarrow> string \<Rightarrow> bool" where
  "doc_exists E p = (lookup_doc E p \<noteq> None)"

definition list_topics :: "'e helper_env_scheme \<Rightarrow> string list" where
  "list_topics E =
     (case docs_listing E of
        None \<Rightarrow> []
      | Some l \<Rightarrow> map stem (sort (glob_md E)))"

text \<open>
  \<^verbatim>\<open>for file in files: if P(file): doc_file = file; break\<close>, returning
  \<^verbatim>\<open>doc_file\<close> after the loop.
\<close>

fun first_match :: "(string \<Rightarrow> bool) \<Rightarrow> string list \<Rightarrow> string \<Rightarrow> string" where
  "first_match P [] doc_file = doc_file"
| "first_match P (file # files) doc_file =
     (if P file then file else first_match P files doc_file)"

definition resolve_doc :: "'e helper_env_scheme \<Rightarrow> string \<Rightarrow> string" where
  "resolve_doc E topic =
     (let doc_file = topic @ ''.md'';
          doc_file = (if \<not> doc_exists E doc_file
                      then first_match (\<lambda>file. str_lower (stem file) = str_lower topic)
                             (glob_md E) doc_file
                      else doc_file);
          doc_file = (if \<not> doc_exists E doc_file
                      then first_match (\<lambda>file. str_in (str_lower topic) (str_lower (stem file)))
                             (glob_md E) doc_file
                      else doc_file)
      in doc_file)"

definition read_doc :: "'e helper_env_scheme \<Rightarrow> string \<Rightarrow> string option" where
  "read_doc E topic =
     (let doc_file = resolve_doc E topic
      in case lookup_doc E doc_file of
           Some (Text s) \<Rightarrow> Some s
         | Some (Unreadable s m) \<Rightarrow> Some (''Error reading file: '' @ m)
         | None \<Rightarrow> None)"

text \<open>
  The resolution order in the words of the specification: the file named
  \<^verbatim>\<open><topic>.md\<close> if it exists; otherwise the first \<^verbatim>\<open>*.md\<close> file whose stem equals
  the topic without regard to case; otherwise the first whose stem contains the
  topic without regard to case; otherwise nothing.
\<close>

definition spec_resolve :: "'e helper_env_scheme \<Rightarrow> string \<Rightarrow> string option" where
  "spec_resolve E topic =
     (if doc_exists E (topic @ ''.md'') then Some (topic @ ''.md'')
      else case find (\<lambda>file. str_lower (stem file) = str_lower topic) (glob_md E) of
        Some file \<Rightarrow> Some file
      | None \<Rightarrow> find (\<lambda>file. str_in (str_lower topic) (str_lower (stem file))) (glob_md E))"

subsection \<open>The command line\<close>

datatype route =
    HookCheck
  | UninstallInfo
  | ListTopics bool
  | WhatsNew bool
  | ReadTopic bool string

text \<open>Where \<^verbatim>\<open>main\<close> goes with \<^verbatim>\<open>sys.argv[1:]\<close>; the flag is \<^verbatim>\<open>check_fresh\<close>.\<close>

definition dispatch :: "string list \<Rightarrow> route" where
  "dispatch argv =
     (if argv \<noteq> [] \<and> hd argv = ''hook-check'' then HookCheck
      else if argv \<noteq> [] \<and> hd argv = ''uninstall'' then UninstallInfo
      else
        let check_fresh = (argv \<noteq> [] \<and> hd argv = ''-t'');
            args = (if check_fresh then tl argv else argv)
        in if args = [] then ListTopics check_fresh
           else if str_lower (join '' '' args)
                     \<in> set [''what'' @ [CHR 0x27] @ ''s new'', ''whats new'', ''what is new'',
                             ''changelog'']
           then WhatsNew check_fresh
           else ReadTopic check_fresh (hd args))"

fun print_lines :: "string list \<Rightarrow> ('s, unit) io" where
  "print_lines [] = return ()"
| "print_lines (l # ls) = bind (print l) (\<lambda>_. print_lines ls)"

definition similar_topics :: "'e helper_env_scheme \<Rightarrow> string \<Rightarrow> string list" where
  "similar_topics E topic =
     filter (\<lambda>t. str_in (str_lower topic) (str_lower t) \<or> str_in (str_lower t) (str_lower topic))
            (list_topics E)"

definition not_found_lines :: "'e helper_env_scheme \<Rightarrow> string \<Rightarrow> string list" where
  "not_found_lines E topic =
     [''[ERROR] Documentation for '' @ [CHR 0x27] @ topic @ [CHR 0x27] @ '' not found'',
      [],
      ''Available topics:'']
     @ (let topics = list_topics E
        in if topics \<noteq> []
           then let similar = similar_topics E topic
                in if similar \<noteq> []
                   then ''  Similar topics:'' # map (\<lambda>t. ''    - '' @ t) (take 5 similar)
                   else map (\<lambda>t. ''  - '' @ t) (take 10 topics)
                        @ (if length topics > 10
                           then [''  ... and '' @ str_of_nat (length topics - 10) @ '' more'']
                           else [])
           else [])"

text \<open>The last branch of \<^verbatim>\<open>main\<close>: read and print one document.\<close>

definition read_topic :: "'e helper_env_scheme \<Rightarrow> bool \<Rightarrow> string \<Rightarrow> ('s, unit) io" where
  "read_topic E check_fresh topic =
     bind (if check_fresh then check_freshness E else return ()) (\<lambda>_.
     bind (print (''[INFO] COMMUNITY MIRROR: '' @ GITHUB_REPO)) (\<lambda>_.
     bind (print (''[INFO] OFFICIAL DOCS: '' @ OFFICIAL_DOCS)) (\<lambda>_.
     bind (print []) (\<lambda>_.
     let content = read_doc E topic
     in
     bind (if content \<noteq> None \<and> content \<noteq> Some []
           then print_lines [the content, [],
                  ''[INFO] Official page: '' @ OFFICIAL_DOCS @ ''/'' @ topic]
           else print_lines (not_found_lines E topic)) (\<lambda>_.
     if \<not> check_fresh
     then print_lines [[], ''[INFO] Reading from local docs (run /docs -t to check freshness)'']
     else return ())))))"

text \<open>
  \<^verbatim>\<open>main\<close> on the two routes that are modelled; the other three (the
  uninstall instructions, the table of topics, the change log) only print.
\<close>

definition main :: "'e helper_env_scheme \<Rightarrow> string list
    \<Rightarrow> ('s helper_world_scheme \<Rightarrow> (exc + unit) \<times> 's helper_world_scheme) option" where
  "main E argv =
     (case dispatch argv of
        HookCheck \<Rightarrow> Some (hook_check E)
      | ReadTopic check_fresh topic \<Rightarrow> Some (read_topic E check_fresh topic)
      | _ \<Rightarrow> None)"

text \<open>
  The script's entry point: an exception that leaves \<^verbatim>\<open>main\<close> is printed and
  the exit status is 1.
\<close>

definition run_script ::
  "('s world_scheme \<Rightarrow> (exc + unit) \<times> 's world_scheme) \<Rightarrow> 's world_scheme \<Rightarrow> int \<times> 's world_scheme" where
  "run_script m w =
     (case m w of
        (Inr _, w') \<Rightarrow> (0, w')
      | (Inl e, w') \<Rightarrow> (1, w'\<lparr>trace := trace w' @ [Print (''Error: '' @ exc_str e)]\<rparr>))"

fun printed :: "event list \<Rightarrow> string list" where
  "printed [] = []"
| "printed (Print s # evs) = s # printed evs"
| "printed (_ # evs) = printed evs"

subsection \<open>A concrete mirror\<close>

definition example_docs :: "(string \<times> doc) list" where
  "example_docs =
     [(''settings.md'', Unreadable ''# Settings'' ''[Errno 13] Permission denied''),
      (''docs_manifest.json'', Text ''{}''),
      (''MCP.md'', Text ''# Model Context Protocol''),
      (''hooks-guide.md'', Text ''# Get started with hooks''),
      (''hooks.md'', Text ''# Hooks reference''),
      (''.md'', Text ''a file without a stem''),
      (''.md.md'', Text ''another file'')]"

definition example_helper_env :: "int \<Rightarrow> string \<Rightarrow> helper_env" where
  "example_helper_env t behind =
     \<lparr>home = ''/home/u'',
      git_present = True,
      git_proc = (\<lambda>tr cwd args.
         if args = [''rev-list'', ''--count'', ''HEAD..origin/main'']
         then (True, behind @ ''\<newline>'', [])
         else (True, [], [])),
      stdin_line = (\<lambda>tr. None),
      script_dir = ''/home/u/.claude-code-docs'',
      now = t,
      touch_error = None,
      docs_listing = Some example_docs,
      nested_path = (\<lambda>p. None),
      time_ago = (\<lambda>t. ''2 hours ago'')\<rparr>"

text \<open>A procedure that never raises and only appends to the trace.\<close>

definition appends :: "('s, 'a) io \<Rightarrow> bool" where
  "appends m = (\<forall>w. \<exists>a evs. m w = (Inr a, w\<lparr>trace := trace w @ evs\<rparr>))"

lemma str_in_sublist: "str_in n h = sublist n h"
  by (induction h) (auto simp: sublist_Cons_right)

lemma manifest_backslash:
  assumes "str_in (''docs'' @ [CHR 0x5C] @ ''docs_manifest.json'') line"
  shows "str_in ''docs_manifest.json'' line"
proof -
  have "sublist ''docs_manifest.json'' ((''docs'' @ [CHR 0x5C]) @ ''docs_manifest.json'')"
    by (rule sublist_append_leftI)
  with assms show ?thesis
    unfolding str_in_sublist using sublist_order.order.trans by fastforce
qed

lemma non_manifest_changes_iff:
  "non_manifest_changes st \<noteq> [] \<longleftrightarrow>
     (\<exists>line \<in> set (splitlines st). \<not> str_in ''docs_manifest.json'' line)"
  unfolding non_manifest_changes_def filter_empty_conv using manifest_backslash by auto

lemma bind_print [simp]: "bind (print s) f w = f () (w\<lparr>trace := trace w @ [Print s]\<rparr>)"
  by (simp add: bind_def print_def emit_def)

lemma bind_emit [simp]: "bind (emit e) f w = f () (w\<lparr>trace := trace w @ [e]\<rparr>)"
  by (simp add: bind_def emit_def)

lemma bind_return [simp]: "bind (return a) f w = f a w"
  by (simp add: bind_def return_def)

lemma bind_git_install:
  "git_present E \<Longrightarrow> bind (git_operation_install E d a) f w =
     f (git_result_install E (trace w) d a)
       (w\<lparr>trace := trace w @ [Git d a (git_result_install E (trace w) d a)]\<rparr>)"
  by (simp add: bind_def git_operation_install_def Let_def)

lemma world_trace_eq [simp]: "(w\<lparr>trace := a\<rparr> = w\<lparr>trace := b\<rparr>) = (a = b)"
  by (cases w) simp

lemma reset_to_clean_run:
  assumes "git_present E"
  shows "\<exists>evs. reset_to_clean E w = (Inr True, w\<lparr>trace := trace w @ evs\<rparr>)
     \<and> git_commands evs = [[''merge'', ''--abort''], [''rebase'', ''--abort''],
          [''reset'', ''--hard'', ''origin/main''], [''clean'', ''-fd'']]
     \<and> (\<forall>e\<in>set evs. \<not> is_input e)
     \<and> Print ''  [OK] Updated successfully to clean state'' \<in> set evs"
  using assms
  by (simp add: reset_to_clean_def bind_git_install return_def INSTALL_BRANCH_def git_commands_def)

lemma bind_input:
  "bind (input E p) f w =
     (case stdin_line E (trace w) of
        None \<Rightarrow> (Inl (EOFError ''EOF when reading a line''), w\<lparr>trace := trace w @ [Input p None]\<rparr>)
      | Some s \<Rightarrow> f s (w\<lparr>trace := trace w @ [Input p (Some s)]\<rparr>))"
  by (simp add: bind_def input_def split: option.splits)

lemma confirm_discard_run:
  "confirm_discard E w =
     (case stdin_line E (trace w @ confirm_banner) of
        None \<Rightarrow> (Inl (EOFError ''EOF when reading a line''),
                 w\<lparr>trace := trace w @ confirm_banner
                    @ [Input ''Continue and discard local changes? [y/N]: '' None]\<rparr>)
      | Some s \<Rightarrow>
          if str_lower s \<noteq> ''y''
          then (Inr False,
                 w\<lparr>trace := trace w @ confirm_banner
                    @ [Input ''Continue and discard local changes? [y/N]: '' (Some s),
                       Print ''Installation cancelled. Your local changes are preserved.'']\<rparr>)
          else (Inr True,
                 w\<lparr>trace := trace w @ confirm_banner
                    @ [Input ''Continue and discard local changes? [y/N]: '' (Some s)]\<rparr>))"
  by (simp add: confirm_discard_def confirm_banner_def bind_input return_def
           split: option.splits)

lemma if_print: "(if c then print a else print b) = print (if c then a else b)"
  by simp

lemma safe_git_update_run:
  assumes gp: "git_present E"
  shows "safe_git_update E w =
    (let d = INSTALL_DIR E;
         t2 = trace w @ update_prefix E w;
         r2 = git_result_install E t2 d [''pull'', ''--quiet'', ''origin'', ''main''];
         t3 = t2 @ [Git d [''pull'', ''--quiet'', ''origin'', ''main''] r2];
         t3' = t3 @ [Print ''  Standard update failed, trying harder...''];
         r3 = git_result_install E t3' d [''fetch'', ''origin'', ''main''];
         t4 = t3' @ [Git d [''fetch'', ''origin'', ''main''] r3];
         r4 = git_result_install E t4 d [''status'', ''--porcelain''];
         w5 = w\<lparr>trace := t4 @ [Git d [''status'', ''--porcelain''] r4]\<rparr>
     in if fst r2 then (Inr True, w\<lparr>trace := t3\<rparr>)
        else if \<not> fst r3
        then (Inr False, w\<lparr>trace := t4 @ [Print ''  [WARNING]  Could not fetch from GitHub (offline?)'']\<rparr>)
        else if (if fst r4 then snd r4 \<noteq> [] else False) \<and> non_manifest_changes (snd r4) \<noteq> []
        then bind (confirm_discard E) (\<lambda>go. if go then reset_to_clean E else return False) w5
        else reset_to_clean E w5)"
  by (simp add: safe_git_update_def update_prefix_def bind_git_install[OF gp] return_def
        INSTALL_BRANCH_def Let_def split_beta if_print if_distribR split del: if_split cong: if_cong)

lemma git_outcome_append:
  "git_outcome a (xs @ ys) = (case git_outcome a xs of Some r \<Rightarrow> Some r | None \<Rightarrow> git_outcome a ys)"
  by (induction a xs rule: git_outcome.induct) auto

lemma git_commands_append: "git_commands (xs @ ys) = git_commands xs @ git_commands ys"
  by (induction xs) (auto simp: git_commands_def split: option.splits)

lemma git_commands_Cons:
  "git_commands (e # xs) = (case git_args e of None \<Rightarrow> git_commands xs | Some a \<Rightarrow> a # git_commands xs)"
  by (cases "git_args e") (simp_all add: git_commands_def)

lemma git_commands_Nil: "git_commands [] = []"
  by (simp add: git_commands_def)

lemma new_events_append: "trace w' = trace w @ evs \<Longrightarrow> new_events w w' = evs"
  by (simp add: new_events_def)

lemma update_prefix_props:
  "git_commands (update_prefix E w) = [[''rev-parse'', ''--abbrev-ref'', ''HEAD'']]"
  "git_outcome [''pull'', ''--quiet'', ''origin'', ''main''] (update_prefix E w) = None"
  "git_outcome [''fetch'', ''origin'', ''main''] (update_prefix E w) = None"
  "git_outcome [''status'', ''--porcelain''] (update_prefix E w) = None"
  "\<forall>e\<in>set (update_prefix E w). \<not> is_input e"
  "Print ''  [OK] Updated successfully to clean state'' \<notin> set (update_prefix E w)"
  "Print ''Installation cancelled. Your local changes are preserved.'' \<notin> set (update_prefix E w)"
  by (simp_all add: update_prefix_def Let_def git_commands_Cons git_commands_Nil)


lemma decision_reset:
  assumes gp: "git_present E" and run: "reset_to_clean E w = (r, w')"
  shows "\<exists>evs. r = Inr True \<and> trace w' = trace w @ evs
     \<and> git_commands evs = [[''merge'', ''--abort''], [''rebase'', ''--abort''],
          [''reset'', ''--hard'', ''origin/main''], [''clean'', ''-fd'']]
     \<and> (\<forall>e\<in>set evs. \<not> is_input e)
     \<and> Print ''  [OK] Updated successfully to clean state'' \<in> set evs"
proof -
  from reset_to_clean_run[OF gp, of w] obtain evs where
    e: "reset_to_clean E w = (Inr True, w\<lparr>trace := trace w @ evs\<rparr>)"
    and p: "git_commands evs = [[''merge'', ''--abort''], [''rebase'', ''--abort''],
          [''reset'', ''--hard'', ''origin/main''], [''clean'', ''-fd'']]"
       "\<forall>e\<in>set evs. \<not> is_input e"
       "Print ''  [OK] Updated successfully to clean state'' \<in> set evs"
    by blast
  from e run have "r = Inr True" "trace w' = trace w @ evs" by auto
  with p show ?thesis by blast
qed

lemma decision_confirm:
  assumes gp: "git_present E"
    and run: "bind (confirm_discard E) (\<lambda>go. if go then reset_to_clean E else return False) w = (r, w')"
  shows "\<exists>reply evs. trace w' = trace w @ confirm_banner
            @ [Input ''Continue and discard local changes? [y/N]: '' reply] @ evs
     \<and> (\<forall>e\<in>set evs. \<not> is_input e)
     \<and> (case reply of
           None \<Rightarrow> r = Inl (EOFError ''EOF when reading a line'') \<and> evs = []
         | Some s \<Rightarrow>
             if str_lower s \<noteq> ''y''
             then r = Inr False
                  \<and> evs = [Print ''Installation cancelled. Your local changes are preserved.'']
             else r = Inr True
                  \<and> git_commands evs = [[''merge'', ''--abort''], [''rebase'', ''--abort''],
                        [''reset'', ''--hard'', ''origin/main''], [''clean'', ''-fd'']]
                  \<and> Print ''  [OK] Updated successfully to clean state'' \<in> set evs)"
proof (cases "stdin_line E (trace w @ confirm_banner)")
  case None
  with run have "r = Inl (EOFError ''EOF when reading a line'')" "trace w' = trace w @ confirm_banner
            @ [Input ''Continue and discard local changes? [y/N]: '' None] @ []"
    by (auto simp: bind_def confirm_discard_run)
  then show ?thesis by (intro exI[of _ None] exI[of _ "[]"]) simp
next
  case (Some s)
  show ?thesis
  proof (cases "str_lower s \<noteq> ''y''")
    case True
    with Some run have "r = Inr False" "trace w' = trace w @ confirm_banner
            @ [Input ''Continue and discard local changes? [y/N]: '' (Some s)]
            @ [Print ''Installation cancelled. Your local changes are preserved.'']"
      by (auto simp: bind_def confirm_discard_run return_def)
    with True show ?thesis
      by (intro exI[of _ "Some s"]
            exI[of _ "[Print ''Installation cancelled. Your local changes are preserved.'']"]) simp
  next
    case False
    define w1 where "w1 = w\<lparr>trace := trace w @ confirm_banner
                    @ [Input ''Continue and discard local changes? [y/N]: '' (Some s)]\<rparr>"
    from False Some run have "reset_to_clean E w1 = (r, w')"
      by (auto simp: bind_def confirm_discard_run w1_def)
    from decision_reset[OF gp this] obtain evs where
      "r = Inr True" "trace w' = trace w1 @ evs"
      "git_commands evs = [[''merge'', ''--abort''], [''rebase'', ''--abort''],
          [''reset'', ''--hard'', ''origin/main''], [''clean'', ''-fd'']]"
      "\<forall>e\<in>set evs. \<not> is_input e"
      "Print ''  [OK] Updated successfully to clean state'' \<in> set evs"
      by blast
    with False show ?thesis
      by (intro exI[of _ "Some s"] exI[of _ evs]) (simp add: w1_def)
  qed
qed

lemma decision_extends:
  assumes gp: "git_present E"
    and run: "(if c then bind (confirm_discard E) (\<lambda>go. if go then reset_to_clean E else return False)
               else reset_to_clean E) w = (r, w')"
  shows "\<exists>tail. trace w' = trace w @ tail"
proof (cases c)
  case True
  with run decision_confirm[OF gp, of w r w'] show ?thesis by auto
next
  case False
  with run decision_reset[OF gp, of w r w'] show ?thesis by auto
qed

lemma safe_git_update_absent:
  "\<not> git_present E \<Longrightarrow>
     safe_git_update E w = (Inl git_missing, w\<lparr>trace := trace w @ [Chdir (INSTALL_DIR E)]\<rparr>)"
  by (simp add: safe_git_update_def git_operation_install_def bind_def emit_def)

lemma safe_git_update_decision:
  assumes run: "safe_git_update E w = (r, w')"
    and pull: "git_outcome [''pull'', ''--quiet'', ''origin'', ''main''] (new_events w w') = Some (False, perr)"
    and fetch: "git_outcome [''fetch'', ''origin'', ''main''] (new_events w w') = Some (True, fout)"
    and status: "git_outcome [''status'', ''--porcelain''] (new_events w w') = Some (ok, st)"
  shows "git_present E \<and> (\<exists>pre w5. trace w5 = trace w @ pre
     \<and> git_commands pre = [[''rev-parse'', ''--abbrev-ref'', ''HEAD''],
          [''pull'', ''--quiet'', ''origin'', ''main''], [''fetch'', ''origin'', ''main''],
          [''status'', ''--porcelain'']]
     \<and> (\<forall>e\<in>set pre. \<not> is_input e)
     \<and> Print ''  [OK] Updated successfully to clean state'' \<notin> set pre
     \<and> Print ''Installation cancelled. Your local changes are preserved.'' \<notin> set pre
     \<and> (if ok \<and> st \<noteq> [] \<and> non_manifest_changes st \<noteq> []
         then bind (confirm_discard E) (\<lambda>go. if go then reset_to_clean E else return False)
         else reset_to_clean E) w5 = (r, w'))"
proof -
  have gp: "git_present E"
  proof (rule ccontr)
    assume "\<not> git_present E"
    from safe_git_update_absent[OF this, of w] run
    have "new_events w w' = [Chdir (INSTALL_DIR E)]"
      by (auto simp: new_events_def)
    with pull show False by simp
  qed
  define d where "d = INSTALL_DIR E"
  define t2 where "t2 = trace w @ update_prefix E w"
  define r2 where "r2 = git_result_install E t2 d [''pull'', ''--quiet'', ''origin'', ''main'']"
  define t3 where "t3 = (t2 @ [Git d [''pull'', ''--quiet'', ''origin'', ''main''] r2])
                          @ [Print ''  Standard update failed, trying harder...'']"
  define r3 where "r3 = git_result_install E t3 d [''fetch'', ''origin'', ''main'']"
  define t4 where "t4 = t3 @ [Git d [''fetch'', ''origin'', ''main''] r3]"
  define r4 where "r4 = git_result_install E t4 d [''status'', ''--porcelain'']"
  define w5 where "w5 = w\<lparr>trace := t4 @ [Git d [''status'', ''--porcelain''] r4]\<rparr>"
  define pre where "pre = update_prefix E w @
       [Git d [''pull'', ''--quiet'', ''origin'', ''main''] r2,
        Print ''  Standard update failed, trying harder...'',
        Git d [''fetch'', ''origin'', ''main''] r3,
        Git d [''status'', ''--porcelain''] r4]"
  have eq: "safe_git_update E w =
     (if fst r2 then (Inr True, w\<lparr>trace := t2 @ [Git d [''pull'', ''--quiet'', ''origin'', ''main''] r2]\<rparr>)
      else if \<not> fst r3
      then (Inr False, w\<lparr>trace := t4 @ [Print ''  [WARNING]  Could not fetch from GitHub (offline?)'']\<rparr>)
      else if (if fst r4 then snd r4 \<noteq> [] else False) \<and> non_manifest_changes (snd r4) \<noteq> []
      then bind (confirm_discard E) (\<lambda>go. if go then reset_to_clean E else return False) w5
      else reset_to_clean E w5)"
    unfolding w5_def r4_def t4_def r3_def t3_def r2_def t2_def d_def
    using safe_git_update_run[OF gp, of w] by (simp only: Let_def)
  have tw5: "trace w5 = trace w @ pre"
    by (simp add: w5_def t4_def t3_def t2_def pre_def)
  have nf2: "\<not> fst r2"
  proof
    assume "fst r2"
    with eq run have "new_events w w' =
        update_prefix E w @ [Git d [''pull'', ''--quiet'', ''origin'', ''main''] r2]"
      by (auto simp: new_events_def t2_def)
    with pull have "r2 = (False, perr)"
      by (simp add: git_outcome_append update_prefix_props)
    with \<open>fst r2\<close> show False by simp
  qed
  have f3: "fst r3"
  proof (rule ccontr)
    assume "\<not> fst r3"
    with eq run nf2 have "new_events w w' =
        update_prefix E w @ [Git d [''pull'', ''--quiet'', ''origin'', ''main''] r2,
          Print ''  Standard update failed, trying harder...'',
          Git d [''fetch'', ''origin'', ''main''] r3,
          Print ''  [WARNING]  Could not fetch from GitHub (offline?)'']"
      by (auto simp: new_events_def t2_def t3_def t4_def)
    with fetch have "r3 = (True, fout)"
      by (simp add: git_outcome_append update_prefix_props)
    with \<open>\<not> fst r3\<close> show False by simp
  qed
  let ?c = "(if fst r4 then snd r4 \<noteq> [] else False) \<and> non_manifest_changes (snd r4) \<noteq> []"
  from eq run nf2 f3 have k: "(if ?c
         then bind (confirm_discard E) (\<lambda>go. if go then reset_to_clean E else return False)
         else reset_to_clean E) w5 = (r, w')"
    by (simp split: if_splits)
  from decision_extends[OF gp k] obtain tail where "trace w' = trace w5 @ tail" by blast
  with tw5 have "new_events w w' = pre @ tail" by (simp add: new_events_def)
  with status have "r4 = (ok, st)"
    by (simp add: pre_def git_outcome_append update_prefix_props)
  with k have k': "(if ok \<and> st \<noteq> [] \<and> non_manifest_changes st \<noteq> []
         then bind (confirm_discard E) (\<lambda>go. if go then reset_to_clean E else return False)
         else reset_to_clean E) w5 = (r, w')"
    by (auto split: if_splits)
  have "git_commands pre = [[''rev-parse'', ''--abbrev-ref'', ''HEAD''],
          [''pull'', ''--quiet'', ''origin'', ''main''], [''fetch'', ''origin'', ''main''],
          [''status'', ''--porcelain'']]"
    by (simp add: pre_def git_commands_append update_prefix_props git_commands_Cons git_commands_Nil)
  moreover have "\<forall>e\<in>set pre. \<not> is_input e"
    using update_prefix_props(5)[of E w] by (auto simp: pre_def)
  moreover have "Print ''  [OK] Updated successfully to clean state'' \<notin> set pre"
    using update_prefix_props(6)[of E w] by (simp add: pre_def)
  moreover have "Print ''Installation cancelled. Your local changes are preserved.'' \<notin> set pre"
    using update_prefix_props(7)[of E w] by (simp add: pre_def)
  ultimately show ?thesis using gp tw5 k' by blast
qed


text \<open>
  Claim C2.  In a run of \<open>safe_git_update\<close> where the pull fails, the fetch
  succeeds and every line of the porcelain status mentions
  \<^verbatim>\<open>docs_manifest.json\<close>, nothing is read from the operator, and the run goes on
  to \<^verbatim>\<open>merge --abort\<close>, \<^verbatim>\<open>rebase --abort\<close>, \<^verbatim>\<open>reset --hard origin/main\<close> and
  \<^verbatim>\<open>clean -fd\<close>, in this order, and returns \<open>True\<close>.
\<close>

theorem safe_git_update_manifest_only:
  assumes run: "safe_git_update E w = (r, w')"
    and pull: "git_outcome [''pull'', ''--quiet'', ''origin'', ''main''] (new_events w w') = Some (False, perr)"
    and fetch: "git_outcome [''fetch'', ''origin'', ''main''] (new_events w w') = Some (True, fout)"
    and status: "git_outcome [''status'', ''--porcelain''] (new_events w w') = Some (True, st)"
    and om: "\<forall>line\<in>set (splitlines st). str_in ''docs_manifest.json'' line"
  shows "r = Inr True
    \<and> (\<forall>e\<in>set (new_events w w'). \<not> is_input e)
    \<and> git_commands (new_events w w') =
              [[''rev-parse'', ''--abbrev-ref'', ''HEAD''],
               [''pull'', ''--quiet'', ''origin'', ''main''],
               [''fetch'', ''origin'', ''main''],
               [''status'', ''--porcelain''],
               [''merge'', ''--abort''],
               [''rebase'', ''--abort''],
               [''reset'', ''--hard'', ''origin/main''],
               [''clean'', ''-fd'']]"
proof -
  from om have nmc: "non_manifest_changes st = []" using non_manifest_changes_iff[of st] by blast
  from safe_git_update_decision[OF run pull fetch status] nmc
  obtain pre w5 where gp: "git_present E" and tw5: "trace w5 = trace w @ pre"
    and cm: "git_commands pre = [[''rev-parse'', ''--abbrev-ref'', ''HEAD''],
          [''pull'', ''--quiet'', ''origin'', ''main''], [''fetch'', ''origin'', ''main''],
          [''status'', ''--porcelain'']]"
    and ni: "\<forall>e\<in>set pre. \<not> is_input e"
    and k: "reset_to_clean E w5 = (r, w')"
    by auto
  from decision_reset[OF gp k] obtain evs where
    "r = Inr True" and tw': "trace w' = trace w5 @ evs"
    and c: "git_commands evs = [[''merge'', ''--abort''], [''rebase'', ''--abort''],
          [''reset'', ''--hard'', ''origin/main''], [''clean'', ''-fd'']]"
    and ni': "\<forall>e\<in>set evs. \<not> is_input e"
    by blast
  have ne: "new_events w w' = pre @ evs"
    using tw' tw5 by (simp add: new_events_def)
  show ?thesis unfolding ne using \<open>r = Inr True\<close> cm c ni ni'
    by (auto simp: git_commands_append)
qed

lemma example_git_result:
  "git_result_install (example_env st rep) t d args =
     (if args = [''rev-parse'', ''--abbrev-ref'', ''HEAD''] then (True, ''main'')
      else if args = [''pull'', ''--quiet'', ''origin'', ''main'']
      then (False, ''error: cannot pull with local changes'')
      else if args = [''status'', ''--porcelain''] then (True, strip st)
      else (True, []))"
  by (simp add: git_result_install_def example_env_def strip_def is_space_def)

lemma example_env_simps:
  "home (example_env st rep) = ''/home/u''"
  "git_present (example_env st rep)"
  "stdin_line (example_env st rep) t = rep"
  by (simp_all add: example_env_def)

lemma bind_confirm:
  "bind (confirm_discard E) f w =
     (case confirm_discard E w of (Inl e, w') \<Rightarrow> (Inl e, w') | (Inr a, w') \<Rightarrow> f a w')"
  by (simp add: bind_def)

lemmas example_eval =
  Let_def update_prefix_def example_git_result example_env_simps confirm_discard_run
  confirm_banner_def bind_confirm return_def INSTALL_DIR_def strip_def is_space_def
  non_manifest_changes_def splitlines_def is_linebreak_def str_lower_def lower_char_def
  example_update_prefix_def example_reset_events_def reset_to_clean_def
  bind_git_install[OF example_env_simps(2)] INSTALL_BRANCH_def



lemma example_manifest_run:
  "safe_git_update (example_env '' M docs/docs_manifest.json\<newline>'' None) \<lparr>trace = []\<rparr> =
   (Inr True, \<lparr>trace = example_update_prefix ''M docs/docs_manifest.json'' @ example_reset_events\<rparr>)"
  by (simp add: safe_git_update_run[OF example_env_simps(2)] example_eval)


text \<open>
  The theorem for C2 at a concrete run: only the manifest is modified, and
  standard input is at its end (nothing could be read).
\<close>

theorem safe_git_update_manifest_only_witness:
  "fst (safe_git_update (example_env '' M docs/docs_manifest.json\<newline>'' None) \<lparr>trace = []\<rparr>)
     = Inr True
   \<and> git_commands (trace (snd (safe_git_update
         (example_env '' M docs/docs_manifest.json\<newline>'' None) \<lparr>trace = []\<rparr>))) =
              [[''rev-parse'', ''--abbrev-ref'', ''HEAD''],
               [''pull'', ''--quiet'', ''origin'', ''main''],
               [''fetch'', ''origin'', ''main''],
               [''status'', ''--porcelain''],
               [''merge'', ''--abort''],
               [''rebase'', ''--abort''],
               [''reset'', ''--hard'', ''origin/main''],
               [''clean'', ''-fd'']]"
  using safe_git_update_manifest_only[OF example_manifest_run,
     of "''error: cannot pull with local changes''" "[]" "''M docs/docs_manifest.json''"]
  by (simp add: example_manifest_run new_events_def example_update_prefix_def example_reset_events_def
        splitlines_def is_linebreak_def)


lemma bind_git_helper:
  "bind (git_operation_helper E a) f w =
     f (git_result_helper E (trace w) a)
       (w\<lparr>trace := trace w @ [Git (script_dir E) a (git_result_helper E (trace w) a)]\<rparr>)"
  by (simp add: bind_def git_operation_helper_def Let_def)

lemma bind_touch:
  "bind (touch E) f w =
     (case touch_error E of
        Some m \<Rightarrow> (Inl (OSError m), w)
      | None \<Rightarrow> f () (w\<lparr>trace := trace w @ [Touch (now E)], last_check := Mtime (now E)\<rparr>))"
  by (simp add: bind_def touch_def split: option.splits)

lemma bind_assoc: "bind (bind m f) g = bind m (\<lambda>x. bind (f x) g)"
  by (auto simp: bind_def fun_eq_iff split: prod.splits sum.splits)

lemma bind_if: "bind (if c then a else b) g = (if c then bind a g else bind b g)"
  by simp





lemmas helper_example_eval =
  hook_check_def bind_touch check_for_updates_def pull_updates_def bind_git_helper bind_assoc
  bind_if return_def Let_def git_result_helper_def example_helper_env_def strip_def is_space_def
  isdigit_def int_of_str_def digit_val_def CHECK_INTERVAL_def

lemma example_helper_env_simps:
  "now (example_helper_env t b) = t"
  "script_dir (example_helper_env t b) = ''/home/u/.claude-code-docs''"
  "docs_listing (example_helper_env t b) = Some example_docs"
  "nested_path (example_helper_env t b) p = None"
  "touch_error (example_helper_env t b) = None"
  "git_present (example_helper_env t b)"
  by (simp_all add: example_helper_env_def)

lemma example_hook_run:
  "hook_check (example_helper_env 5 ''2'') \<lparr>trace = [], last_check = NoFile\<rparr> =
     (Inr (), \<lparr>trace =
        [Touch 5,
         Git ''/home/u/.claude-code-docs'' [''fetch'', ''--quiet''] (True, []),
         Git ''/home/u/.claude-code-docs'' [''rev-list'', ''--count'', ''HEAD..origin/main'']
           (True, ''2''),
         Print ''[UPDATE] Updating documentation...'',
         Git ''/home/u/.claude-code-docs'' [''pull'', ''--quiet''] (True, []),
         Print ''[OK] Documentation updated successfully''],
        last_check = Mtime 5\<rparr>)"
  by (simp add: helper_example_eval)


text \<open>
  Claim C4 at a concrete invocation with the argument \<^verbatim>\<open>hook-check\<close>: no marker,
  the remote is two commits ahead, the pull succeeds.  \<open>pull_updates\<close> prints
  two lines on the way.
\<close>

theorem hook_check_prints:
  "dispatch [''hook-check''] = HookCheck
   \<and> run_script (hook_check (example_helper_env 5 ''2'')) \<lparr>trace = [], last_check = NoFile\<rparr>
     = (0, \<lparr>trace =
        [Touch 5,
         Git ''/home/u/.claude-code-docs'' [''fetch'', ''--quiet''] (True, []),
         Git ''/home/u/.claude-code-docs'' [''rev-list'', ''--count'', ''HEAD..origin/main'']
           (True, ''2''),
         Print ''[UPDATE] Updating documentation...'',
         Git ''/home/u/.claude-code-docs'' [''pull'', ''--quiet''] (True, []),
         Print ''[OK] Documentation updated successfully''],
        last_check = Mtime 5\<rparr>)
   \<and> printed (trace (snd (run_script (hook_check (example_helper_env 5 ''2''))
         \<lparr>trace = [], last_check = NoFile\<rparr>)))
     = [''[UPDATE] Updating documentation...'', ''[OK] Documentation updated successfully'']"
  by (simp add: run_script_def example_hook_run dispatch_def)

lemma first_match_find:
  "first_match P xs d = (case find P xs of Some f \<Rightarrow> f | None \<Rightarrow> d)"
  by (induction xs) auto

lemma glob_md_exists: "file \<in> set (glob_md E) \<Longrightarrow> doc_exists E file"
proof -
  assume a: "file \<in> set (glob_md E)"
  then obtain l where l: "docs_listing E = Some l" and f: "file \<in> fst ` set l"
    by (cases "docs_listing E") (auto simp: glob_md_def)
  from f have "map_of l file \<noteq> None" by (simp add: map_of_eq_None_iff)
  with l show ?thesis by (auto simp: doc_exists_def lookup_doc_def split: option.splits)
qed

lemma find_in_glob: "find P (glob_md E) = Some file \<Longrightarrow> doc_exists E file"
  by (auto simp: find_Some_iff intro: glob_md_exists)

lemma resolve_doc_spec:
  "resolve_doc E topic = (case spec_resolve E topic of Some file \<Rightarrow> file | None \<Rightarrow> topic @ ''.md'')"
  "spec_resolve E topic = Some file \<Longrightarrow> doc_exists E file"
  "spec_resolve E topic = None \<Longrightarrow> \<not> doc_exists E (topic @ ''.md'')"
  by (auto simp: resolve_doc_def spec_resolve_def Let_def first_match_find
           dest: find_in_glob split: option.splits if_splits)

text \<open>
  Claim C7.  \<open>read_doc\<close> reads the file that the resolution order of the
  specification selects, and returns nothing when no rule selects one.
\<close>

theorem read_doc_resolution_order:
  "read_doc E topic =
     (case spec_resolve E topic of
        None \<Rightarrow> None
      | Some file \<Rightarrow>
          (case lookup_doc E file of
             Some (Text s) \<Rightarrow> Some s
           | Some (Unreadable s m) \<Rightarrow> Some (''Error reading file: '' @ m)
           | None \<Rightarrow> None))
   \<and> (\<forall>file. spec_resolve E topic = Some file \<longrightarrow>
         resolve_doc E topic = file \<and> doc_exists E file \<and> read_doc E topic \<noteq> None)
   \<and> (spec_resolve E topic = None \<longrightarrow> read_doc E topic = None)"
proof (cases "spec_resolve E topic")
  case None
  with resolve_doc_spec(1)[of E topic] resolve_doc_spec(3)[of E topic]
  show ?thesis by (auto simp: read_doc_def Let_def doc_exists_def)
next
  case (Some f)
  with resolve_doc_spec(1)[of E topic] resolve_doc_spec(2)[of E topic f]
  show ?thesis by (auto simp: read_doc_def Let_def doc_exists_def split: option.splits doc.splits)
qed




lemma print_lines_run:
  "print_lines ls w = (Inr (), w\<lparr>trace := trace w @ map Print ls\<rparr>)"
  by (induction ls arbitrary: w) (simp_all add: return_def)

lemma bind_print_lines:
  "bind (print_lines ls) f w = f () (w\<lparr>trace := trace w @ map Print ls\<rparr>)"
  by (simp add: bind_def print_lines_run)

lemma printed_append: "printed (xs @ ys) = printed xs @ printed ys"
  by (induction xs rule: printed.induct) simp_all

lemma printed_map_Print: "printed (map Print ls) = ls"
  by (induction ls) simp_all

lemma world_trace_Nil: "w\<lparr>trace := trace w @ []\<rparr> = w"
  by simp

lemma appends_return: "appends (return a)"
  unfolding appends_def return_def
  by (intro allI exI[of _ a] exI[of _ "[]"]) simp

lemma appends_print: "appends (print s)"
  unfolding appends_def print_def emit_def
  by (intro allI exI[of _ "()"] exI[of _ "[Print s]"]) simp

lemma appends_git_helper: "appends (git_operation_helper E a)"
  unfolding appends_def git_operation_helper_def Let_def
  by (intro allI exI) (rule refl)

lemma appends_bind:
  assumes "appends m" and "\<And>a. appends (f a)"
  shows "appends (bind m f)"
  unfolding appends_def
proof
  fix w
  from assms(1) obtain a evs where m: "m w = (Inr a, w\<lparr>trace := trace w @ evs\<rparr>)"
    unfolding appends_def by blast
  define w1 where "w1 = w\<lparr>trace := trace w @ evs\<rparr>"
  from assms(2)[of a] obtain b evs' where
    "f a w1 = (Inr b, w1\<lparr>trace := trace w1 @ evs'\<rparr>)"
    unfolding appends_def by blast
  with m have "bind m f w = (Inr b, w\<lparr>trace := trace w @ (evs @ evs')\<rparr>)"
    by (simp add: bind_def w1_def)
  then show "\<exists>a evs. bind m f w = (Inr a, w\<lparr>trace := trace w @ evs\<rparr>)"
    by blast
qed

lemma appends_if: "appends a \<Longrightarrow> appends b \<Longrightarrow> appends (if c then a else b)"
  by simp


lemma appends_case_prod: "(\<And>a b. appends (f a b)) \<Longrightarrow> appends (case p of (a, b) \<Rightarrow> f a b)"
  by (cases p) simp

lemma appends_let: "appends (f x) \<Longrightarrow> appends (let y = x in f y)"
  by simp

lemma appends_case_option:
  "appends a \<Longrightarrow> (\<And>x. appends (f x)) \<Longrightarrow> appends (case opt of None \<Rightarrow> a | Some x \<Rightarrow> f x)"
  by (cases opt) simp_all

lemmas appends_intros =
  appends_bind appends_if appends_case_prod appends_let appends_case_option
  appends_git_helper appends_return appends_print

lemma appends_check_for_updates: "appends (check_for_updates E)"
  unfolding check_for_updates_def
  by (intro appends_intros)

lemma appends_pull_updates: "appends (pull_updates E)"
  unfolding pull_updates_def
  by (intro appends_intros)

lemma appends_check_freshness: "appends (check_freshness E)"
  unfolding check_freshness_def get_last_update_time_def
  by (intro appends_intros appends_check_for_updates appends_pull_updates)

lemma check_freshness_run:
  "\<exists>evs. check_freshness E w = (Inr (), w\<lparr>trace := trace w @ evs\<rparr>)"
  using appends_check_freshness[of E] unfolding appends_def by auto

lemma read_topic_run:
  "read_topic E check_fresh T w =
     (Inr (), w\<lparr>trace := trace w
        @ (if check_fresh then new_events w (snd (check_freshness E w)) else [])
        @ map Print
           ([''[INFO] COMMUNITY MIRROR: '' @ GITHUB_REPO,
             ''[INFO] OFFICIAL DOCS: '' @ OFFICIAL_DOCS, []]
            @ (if read_doc E T \<noteq> None \<and> read_doc E T \<noteq> Some []
               then [the (read_doc E T), [],
                     ''[INFO] Official page: '' @ OFFICIAL_DOCS @ ''/'' @ T]
               else not_found_lines E T)
            @ (if \<not> check_fresh
               then [[], ''[INFO] Reading from local docs (run /docs -t to check freshness)'']
               else []))\<rparr>)"
proof (cases check_fresh)
  case False
  then show ?thesis
    by (simp add: read_topic_def Let_def bind_print_lines bind_if print_lines_run return_def
          if_distribR del: print_lines.simps)
next
  case True
  obtain evs where e: "check_freshness E w = (Inr (), w\<lparr>trace := trace w @ evs\<rparr>)"
    using check_freshness_run by blast
  then have b: "bind (check_freshness E) f w = f () (w\<lparr>trace := trace w @ evs\<rparr>)" for f
    by (simp add: bind_def)
  from e have n: "new_events w (snd (check_freshness E w)) = evs"
    by (simp add: new_events_def)
  from True show ?thesis
    by (simp add: read_topic_def Let_def b n bind_print_lines bind_if print_lines_run return_def
          if_distribR del: print_lines.simps)
qed

lemma read_topic_printed:
  assumes "read_topic E check_fresh T w = (r, w')"
  shows "r = Inr () \<and> printed (new_events w w') =
        (if check_fresh then printed (new_events w (snd (check_freshness E w))) else [])
        @ [''[INFO] COMMUNITY MIRROR: '' @ GITHUB_REPO,
             ''[INFO] OFFICIAL DOCS: '' @ OFFICIAL_DOCS, []]
            @ (if read_doc E T \<noteq> None \<and> read_doc E T \<noteq> Some []
               then [the (read_doc E T), [],
                     ''[INFO] Official page: '' @ OFFICIAL_DOCS @ ''/'' @ T]
               else not_found_lines E T)
            @ (if \<not> check_fresh
               then [[], ''[INFO] Reading from local docs (run /docs -t to check freshness)'']
               else [])"
  using assms unfolding read_topic_run
  by (auto simp: new_events_def printed_append printed_map_Print)

text \<open>
  Claim C9.  When no rule of the resolution order matches the topic, the helper
  prints the not-found line; when there are similar topics, the list under
  \<^verbatim>\<open>Similar topics:\<close> holds the first five of them, and every similar topic is a
  topic whose lower-cased name contains the lower-cased query or is contained in
  it.  Without similar topics no such list is printed (the first ten topics are
  listed instead).
\<close>

theorem not_found_suggestions:
  assumes nores: "spec_resolve E T = None"
    and run: "read_topic E check_fresh T w = (r, w')"
  shows "read_doc E T = None
    \<and> r = Inr ()
    \<and> printed (new_events w w') =
        (if check_fresh then printed (new_events w (snd (check_freshness E w))) else [])
        @ [''[INFO] COMMUNITY MIRROR: '' @ GITHUB_REPO,
           ''[INFO] OFFICIAL DOCS: '' @ OFFICIAL_DOCS, []]
        @ not_found_lines E T
        @ (if \<not> check_fresh
           then [[], ''[INFO] Reading from local docs (run /docs -t to check freshness)'']
           else [])
    \<and> take 3 (not_found_lines E T) =
         [''[ERROR] Documentation for '' @ [CHR 0x27] @ T @ [CHR 0x27] @ '' not found'',
          [], ''Available topics:'']
    \<and> (similar_topics E T \<noteq> [] \<longrightarrow>
          drop 3 (not_found_lines E T) =
            ''  Similar topics:'' # map (\<lambda>t. ''    - '' @ t) (take 5 (similar_topics E T)))
    \<and> (similar_topics E T = [] \<longrightarrow> ''  Similar topics:'' \<notin> set (not_found_lines E T))
    \<and> (\<forall>t\<in>set (similar_topics E T).
          t \<in> set (list_topics E)
          \<and> (str_in (str_lower T) (str_lower t) \<or> str_in (str_lower t) (str_lower T)))"
proof -
  from nores have none: "read_doc E T = None"
    using read_doc_resolution_order[of E T] by simp
  from read_topic_printed[OF run] none have out: "r = Inr ()" "printed (new_events w w') =
        (if check_fresh then printed (new_events w (snd (check_freshness E w))) else [])
        @ [''[INFO] COMMUNITY MIRROR: '' @ GITHUB_REPO,
           ''[INFO] OFFICIAL DOCS: '' @ OFFICIAL_DOCS, []]
        @ not_found_lines E T
        @ (if \<not> check_fresh
           then [[], ''[INFO] Reading from local docs (run /docs -t to check freshness)'']
           else [])"
    by simp_all
  have head: "take 3 (not_found_lines E T) =
         [''[ERROR] Documentation for '' @ [CHR 0x27] @ T @ [CHR 0x27] @ '' not found'',
          [], ''Available topics:'']"
    by (simp add: not_found_lines_def)
  have sim: "drop 3 (not_found_lines E T) =
            ''  Similar topics:'' # map (\<lambda>t. ''    - '' @ t) (take 5 (similar_topics E T))"
    if "similar_topics E T \<noteq> []"
  proof -
    from that have "list_topics E \<noteq> []" by (auto simp: similar_topics_def)
    with that show ?thesis by (simp add: not_found_lines_def Let_def)
  qed
  have nosim: "''  Similar topics:'' \<notin> set (not_found_lines E T)" if "similar_topics E T = []"
    using that by (auto simp: not_found_lines_def Let_def dest: in_set_takeD)
  have ov: "\<forall>t\<in>set (similar_topics E T).
          t \<in> set (list_topics E)
          \<and> (str_in (str_lower T) (str_lower t) \<or> str_in (str_lower t) (str_lower T))"
    by (auto simp: similar_topics_def)
  from none out head sim nosim ov show ?thesis by blast
qed

text \<open>
  Claim C10.  When the resolved file exists and reading it raises, \<open>read_doc\<close>
  returns \<^verbatim>\<open>Error reading file: <message>\<close>, and the helper prints this text
  where the document would be, followed by the link to the official page; the
  not-found lines are not printed.
\<close>

theorem unreadable_printed_as_content:
  assumes unread: "lookup_doc E (resolve_doc E T) = Some (Unreadable s m)"
    and run: "read_topic E check_fresh T w = (r, w')"
  shows "read_doc E T = Some (''Error reading file: '' @ m)
    \<and> r = Inr ()
    \<and> printed (new_events w w') =
        (if check_fresh then printed (new_events w (snd (check_freshness E w))) else [])
        @ [''[INFO] COMMUNITY MIRROR: '' @ GITHUB_REPO,
           ''[INFO] OFFICIAL DOCS: '' @ OFFICIAL_DOCS, [],
           ''Error reading file: '' @ m, [],
           ''[INFO] Official page: '' @ OFFICIAL_DOCS @ ''/'' @ T]
        @ (if \<not> check_fresh
           then [[], ''[INFO] Reading from local docs (run /docs -t to check freshness)'']
           else [])"
proof -
  from unread have rd: "read_doc E T = Some (''Error reading file: '' @ m)"
    by (simp add: read_doc_def Let_def)
  from read_topic_printed[OF run] rd show ?thesis by simp
qed

lemma example_glob:
  "glob_md (example_helper_env t b) =
     [''settings.md'', ''MCP.md'', ''hooks-guide.md'', ''hooks.md'', ''.md'', ''.md.md'']"
  by (simp add: glob_md_def example_helper_env_simps example_docs_def suffix_to_prefix)

lemma example_lookup:
  "lookup_doc (example_helper_env t b) p = map_of example_docs p"
  by (simp add: lookup_doc_def example_helper_env_simps split: option.splits)

lemma example_exists:
  "doc_exists (example_helper_env t b) p = (map_of example_docs p \<noteq> None)"
  by (simp add: doc_exists_def example_lookup)

lemma example_stems:
  "stem ''settings.md'' = ''settings''"
  "stem ''MCP.md'' = ''MCP''"
  "stem ''hooks-guide.md'' = ''hooks-guide''"
  "stem ''hooks.md'' = ''hooks''"
  "stem ''.md'' = ''.md''"
  "stem ''.md.md'' = ''.md''"
  by (simp_all add: stem_def)

lemma example_lower:
  "str_lower ''hooks-guide-extra'' = ''hooks-guide-extra''"
  "str_lower ''hooks-guide'' = ''hooks-guide''"
  "str_lower ''hooks'' = ''hooks''"
  "str_lower ''settings'' = ''settings''"
  "str_lower ''MCP'' = ''mcp''"
  "str_lower ''mcp'' = ''mcp''"
  "str_lower ''guide'' = ''guide''"
  "str_lower ''zzz'' = ''zzz''"
  "str_lower ''.md'' = ''.md''"
  by (simp_all add: str_lower_def lower_char_def)

lemmas example_doc_eval =
  spec_resolve_def example_glob example_exists example_lookup example_docs_def example_stems
  example_lower

lemma example_resolutions:
  "spec_resolve (example_helper_env t b) ''hooks'' = Some ''hooks.md''"
  "spec_resolve (example_helper_env t b) ''mcp'' = Some ''MCP.md''"
  "spec_resolve (example_helper_env t b) ''guide'' = Some ''hooks-guide.md''"
  "spec_resolve (example_helper_env t b) ''settings'' = Some ''settings.md''"
  "spec_resolve (example_helper_env t b) ''zzz'' = None"
  "spec_resolve (example_helper_env t b) ''.md'' = Some ''.md.md''"
  by (simp_all add: example_doc_eval)

text \<open>
  The theorem for C7 on the concrete mirror: a topic for each of the three
  rules, and one that no rule matches.
\<close>

theorem read_doc_resolution_order_witness:
  "resolve_doc (example_helper_env 0 []) ''hooks'' = ''hooks.md''
   \<and> read_doc (example_helper_env 0 []) ''hooks'' = Some ''# Hooks reference''
   \<and> resolve_doc (example_helper_env 0 []) ''mcp'' = ''MCP.md''
   \<and> read_doc (example_helper_env 0 []) ''mcp'' = Some ''# Model Context Protocol''
   \<and> resolve_doc (example_helper_env 0 []) ''guide'' = ''hooks-guide.md''
   \<and> read_doc (example_helper_env 0 []) ''guide'' = Some ''# Get started with hooks''
   \<and> read_doc (example_helper_env 0 []) ''zzz'' = None"
  using read_doc_resolution_order[of "example_helper_env 0 []" "''hooks''"]
        read_doc_resolution_order[of "example_helper_env 0 []" "''mcp''"]
        read_doc_resolution_order[of "example_helper_env 0 []" "''guide''"]
        read_doc_resolution_order[of "example_helper_env 0 []" "''zzz''"]
  by (simp add: example_resolutions example_lookup example_docs_def)



lemma example_topics:
  "list_topics (example_helper_env t b) =
     [''.md'', ''.md'', ''MCP'', ''hooks-guide'', ''hooks'', ''settings'']"
proof -
  have "sort [''settings.md'', ''MCP.md'', ''hooks-guide.md'', ''hooks.md'', ''.md'', ''.md.md'']
      = [''.md'', ''.md.md'', ''MCP.md'', ''hooks-guide.md'', ''hooks.md'', ''settings.md'']"
    by code_simp
  then show ?thesis
    by (simp add: list_topics_def example_helper_env_simps example_glob example_stems)
qed


text \<open>The theorem for C9 on the concrete mirror.\<close>

theorem not_found_suggestions_witness:
  "printed (trace (snd (read_topic (example_helper_env 0 []) False ''hooks-guide-extra''
       \<lparr>trace = [], last_check = NoFile\<rparr>))) =
     [''[INFO] COMMUNITY MIRROR: https://github.com/ericbuess/claude-code-docs'',
      ''[INFO] OFFICIAL DOCS: https://docs.anthropic.com/en/docs/claude-code'',
      [],
      ''[ERROR] Documentation for '' @ [CHR 0x27] @ ''hooks-guide-extra'' @ [CHR 0x27]
        @ '' not found'',
      [],
      ''Available topics:'',
      ''  Similar topics:'',
      ''    - hooks-guide'',
      ''    - hooks'',
      [],
      ''[INFO] Reading from local docs (run /docs -t to check freshness)'']"
proof -
  have nores: "spec_resolve (example_helper_env 0 []) ''hooks-guide-extra'' = None"
    by (simp add: example_doc_eval)
  have sim: "similar_topics (example_helper_env 0 []) ''hooks-guide-extra''
      = [''hooks-guide'', ''hooks'']"
    by (simp add: similar_topics_def example_topics example_lower)
  have run: "read_topic (example_helper_env 0 []) False ''hooks-guide-extra''
       \<lparr>trace = [], last_check = NoFile\<rparr>
     = (fst (read_topic (example_helper_env 0 []) False ''hooks-guide-extra''
          \<lparr>trace = [], last_check = NoFile\<rparr>),
        snd (read_topic (example_helper_env 0 []) False ''hooks-guide-extra''
          \<lparr>trace = [], last_check = NoFile\<rparr>))"
    by simp
  from not_found_suggestions[OF nores run]
  have p: "printed (new_events \<lparr>trace = [], last_check = NoFile\<rparr>
        (snd (read_topic (example_helper_env 0 []) False ''hooks-guide-extra''
          \<lparr>trace = [], last_check = NoFile\<rparr>))) =
        [''[INFO] COMMUNITY MIRROR: '' @ GITHUB_REPO,
           ''[INFO] OFFICIAL DOCS: '' @ OFFICIAL_DOCS, []]
        @ not_found_lines (example_helper_env 0 []) ''hooks-guide-extra''
        @ [[], ''[INFO] Reading from local docs (run /docs -t to check freshness)'']"
    and t: "take 3 (not_found_lines (example_helper_env 0 []) ''hooks-guide-extra'') =
         [''[ERROR] Documentation for '' @ [CHR 0x27] @ ''hooks-guide-extra'' @ [CHR 0x27]
            @ '' not found'', [], ''Available topics:'']"
    and d: "drop 3 (not_found_lines (example_helper_env 0 []) ''hooks-guide-extra'') =
            ''  Similar topics:'' # map (\<lambda>t. ''    - '' @ t)
               (take 5 (similar_topics (example_helper_env 0 []) ''hooks-guide-extra''))"
    using sim by simp_all
  have "not_found_lines (example_helper_env 0 []) ''hooks-guide-extra''
     = take 3 (not_found_lines (example_helper_env 0 []) ''hooks-guide-extra'')
       @ drop 3 (not_found_lines (example_helper_env 0 []) ''hooks-guide-extra'')"
    by simp
  with p t d sim show ?thesis
    by (simp add: new_events_def GITHUB_REPO_def OFFICIAL_DOCS_def)
qed

text \<open>The theorem for C10 on the concrete mirror.\<close>

theorem unreadable_printed_as_content_witness:
  "read_doc (example_helper_env 0 []) ''settings''
     = Some ''Error reading file: [Errno 13] Permission denied''
   \<and> printed (trace (snd (read_topic (example_helper_env 0 []) False ''settings''
       \<lparr>trace = [], last_check = NoFile\<rparr>))) =
     [''[INFO] COMMUNITY MIRROR: https://github.com/ericbuess/claude-code-docs'',
      ''[INFO] OFFICIAL DOCS: https://docs.anthropic.com/en/docs/claude-code'',
      [],
      ''Error reading file: [Errno 13] Permission denied'',
      [],
      ''[INFO] Official page: https://docs.anthropic.com/en/docs/claude-code/settings'',
      [],
      ''[INFO] Reading from local docs (run /docs -t to check freshness)'']"
proof -
  have "resolve_doc (example_helper_env 0 []) ''settings'' = ''settings.md''"
    by (simp add: resolve_doc_spec(1) example_resolutions)
  then have un: "lookup_doc (example_helper_env 0 []) (resolve_doc (example_helper_env 0 []) ''settings'')
      = Some (Unreadable ''# Settings'' ''[Errno 13] Permission denied'')"
    by (simp add: example_lookup example_docs_def)
  have run: "read_topic (example_helper_env 0 []) False ''settings''
       \<lparr>trace = [], last_check = NoFile\<rparr>
     = (fst (read_topic (example_helper_env 0 []) False ''settings''
          \<lparr>trace = [], last_check = NoFile\<rparr>),
        snd (read_topic (example_helper_env 0 []) False ''settings''
          \<lparr>trace = [], last_check = NoFile\<rparr>))"
    by simp
  from unreadable_printed_as_content[OF un run] show ?thesis
    by (simp add: new_events_def GITHUB_REPO_def OFFICIAL_DOCS_def)
qed

end
